theory Spec2Isabelle
  imports Complex_Main
begin

section \<open>Python values, exceptions and dictionaries\<close>

text \<open>
  The executor passes dynamically typed values around: cluster-spec entries, the result
  of a worker's constructor probe, dictionary keys. They are modelled by one datatype.
  A Ray actor handle is an opaque identity, here the number the runtime gave it.
\<close>

type_synonym actor = nat
type_synonym addr = nat
type_synonym obj_id = nat

datatype pyval =
    PyNone
  | PyBool bool
  | PyInt int
  | PyStr string
  | PyActor actor
  | PyDict "(string \<times> pyval) list"

datatype error =
    KeyError
  | ValueError
  | AttributeError
  | TypeError
  | IndexError
  | ZeroDivisionError
  | AssertionError pyval
  | NotImplementedError
  | DuplicateTaskError

text \<open>
  A \<^verbatim>\<open>dict\<close> is an association list in insertion order with unique keys:
  \<^verbatim>\<open>d[k] = v\<close> overwrites in place or appends, \<^verbatim>\<open>d.get(k, default)\<close> reads
  with a default, \<^verbatim>\<open>k in d\<close> tests membership and \<^verbatim>\<open>d.keys()\<close> lists the keys.
\<close>

fun dict_set :: "('k \<times> 'v) list \<Rightarrow> 'k \<Rightarrow> 'v \<Rightarrow> ('k \<times> 'v) list" where
  "dict_set [] k v = [(k, v)]"
| "dict_set ((k', v') # d) k v = (if k' = k then (k, v) # d else (k', v') # dict_set d k v)"

definition dict_get :: "('k \<times> 'v) list \<Rightarrow> 'k \<Rightarrow> 'v \<Rightarrow> 'v" where
  "dict_get d k dflt = (case map_of d k of None \<Rightarrow> dflt | Some v \<Rightarrow> v)"

definition dict_in :: "'k \<Rightarrow> ('k \<times> 'v) list \<Rightarrow> bool" where
  "dict_in k d = (map_of d k \<noteq> None)"

definition dict_keys :: "('k \<times> 'v) list \<Rightarrow> 'k list" where
  "dict_keys d = map fst d"

text \<open>\<^verbatim>\<open>"{}".format(i)\<close> for a non-negative integer: its decimal digits.\<close>

fun str_nat :: "nat \<Rightarrow> string" where
  "str_nat n =
     (if n < 10 then [''0123456789'' ! n]
      else str_nat (n div 10) @ [''0123456789'' ! (n mod 10)])"

declare str_nat.simps [simp del]

section \<open>Cluster manager: \<^verbatim>\<open>RayExecutor.ray_init\<close>\<close>

text \<open>
  \<^verbatim>\<open>ray_init\<close> logs the cluster spec, warns when the key it tests is absent, and calls
  \<^verbatim>\<open>ray.init\<close> with three values read from the spec by \<^verbatim>\<open>dict.get(key, None)\<close>.
  The model returns the log lines in order and the arguments given to \<^verbatim>\<open>ray.init\<close>.
  \<open>InfoItem k v\<close> stands for the line \<^verbatim>\<open>"{}: {}".format(k, v)\<close>.
\<close>

datatype log_entry = Info string | InfoItem string pyval | Warning string

record ray_init_args =
  redis_address :: pyval
  num_cpus :: pyval
  num_gpus :: pyval

definition no_redis_warning :: log_entry where
  "no_redis_warning = Warning ''Warning: No redis address provided, starting local redis server.''"

definition ray_init :: "(string \<times> pyval) list \<Rightarrow> log_entry list \<times> ray_init_args" where
  "ray_init cluster_spec =
     (let log1 = [Info ''Initializing Ray cluster with cluster spec:''];
          log2 = log1 @ map (\<lambda>(spec_key, v). InfoItem spec_key v) cluster_spec;
          log3 = (if \<not> dict_in ''redis_host'' cluster_spec then log2 @ [no_redis_warning] else log2)
      in (log3,
          \<lparr> redis_address = dict_get cluster_spec ''redis_address'' PyNone,
            num_cpus = dict_get cluster_spec ''num_cpus'' PyNone,
            num_gpus = dict_get cluster_spec ''num_gpus'' PyNone \<rparr>))"

section \<open>The Ray runtime and the executor's state\<close>

text \<open>
  What the executor sees of the world outside it: the Python heap that holds the mutable
  agent-config objects (a reference is an address, allocated in increasing order), and
  the Ray cluster: the actors created so far with the class, config reference and extra
  arguments each was constructed from, the remote method calls submitted so far in
  order, the object store with the sample counts that have arrived, and the answers the
  workers give to the constructor probe and to the statistics query.
\<close>

datatype remote_method = ExecuteAndGetWithCount | GetWorkloadStatistics | GetConstructorSuccess

record worker_statistics =
  episode_rewards :: "rat list"
  episode_timesteps :: "int list"
  min_episode_reward :: rat
  max_episode_reward :: rat
  mean_episode_reward :: rat
  final_episode_reward :: rat
  episodes_executed :: int
  worker_steps :: int
  mean_worker_ops_per_second :: rat
  mean_worker_env_frames_per_second :: rat

record actor_rec =
  actor_cls :: string
  actor_config :: addr
  actor_args :: "pyval list"

record ray_state =
  next_addr :: addr
  heap :: "addr \<Rightarrow> pyval"
  next_actor :: actor
  actors :: "actor \<Rightarrow> actor_rec"
  next_obj :: obj_id
  submitted :: "(actor \<times> remote_method) list"
  object_store :: "obj_id \<rightharpoonup> int"
  constructor_success :: "actor \<Rightarrow> pyval"
  workload_statistics :: "actor \<Rightarrow> worker_statistics"

text \<open>
  \<^verbatim>\<open>deepcopy(x)\<close> builds a new object equal to \<open>x\<close> and shares nothing with it: a
  fresh address holding the same value. \<^verbatim>\<open>cls.remote(config, *args)\<close> creates a new
  actor and returns its handle. \<^verbatim>\<open>worker.method.remote()\<close> submits a call and returns
  the id of the object that will hold its result;
  \<^verbatim>\<open>execute_and_get_with_count\<close> has two results, the batch and its sample count.
\<close>

definition deepcopy :: "addr \<Rightarrow> ray_state \<Rightarrow> addr \<times> ray_state" where
  "deepcopy a rt =
     (next_addr rt,
      rt\<lparr> heap := (heap rt)(next_addr rt := heap rt a), next_addr := Suc (next_addr rt) \<rparr>)"

definition cls_remote :: "string \<Rightarrow> addr \<Rightarrow> pyval list \<Rightarrow> ray_state \<Rightarrow> actor \<times> ray_state" where
  "cls_remote cls config args rt =
     (next_actor rt,
      rt\<lparr> actors := (actors rt)(next_actor rt :=
              \<lparr> actor_cls = cls, actor_config = config, actor_args = args \<rparr>),
          next_actor := Suc (next_actor rt) \<rparr>)"

definition method_remote :: "actor \<Rightarrow> remote_method \<Rightarrow> ray_state \<Rightarrow> obj_id \<times> ray_state" where
  "method_remote w m rt =
     (next_obj rt,
      rt\<lparr> submitted := submitted rt @ [(w, m)], next_obj := Suc (next_obj rt) \<rparr>)"

definition execute_and_get_with_count_remote ::
  "actor \<Rightarrow> ray_state \<Rightarrow> (obj_id \<times> obj_id) \<times> ray_state" where
  "execute_and_get_with_count_remote w rt =
     ((next_obj rt, Suc (next_obj rt)),
      rt\<lparr> submitted := submitted rt @ [(w, ExecuteAndGetWithCount)],
          next_obj := Suc (Suc (next_obj rt)) \<rparr>)"

text \<open>
  The fields of \<^verbatim>\<open>RayExecutor\<close>. \<^verbatim>\<open>ray_env_sample_workers\<close> is \<^verbatim>\<open>None\<close> after
  \<^verbatim>\<open>__init__\<close>; \<^verbatim>\<open>setup_execution\<close> of the synchronous-batch executor assigns it the
  list returned by \<^verbatim>\<open>create_remote_workers\<close>; \<^verbatim>\<open>result_by_worker\<close> reads it as a
  dictionary. A subclass adds fields by extending the record.
\<close>

datatype workers_attr = WNone | WList "actor list" | WDict "(pyval \<times> actor) list"

record ray_executor =
  cluster_spec :: "(string \<times> pyval) list"
  worker_ids :: "(pyval \<times> string) list"
  ray_env_sample_workers :: workers_attr
  env_sample_iteration_throughputs :: "rat list option"
  update_iteration_throughputs :: "rat list option"
  ray :: ray_state

definition init_executor :: "(string \<times> pyval) list \<Rightarrow> ray_state \<Rightarrow> ray_executor" where
  "init_executor spec rt =
     \<lparr> cluster_spec = spec, worker_ids = [], ray_env_sample_workers = WNone,
       env_sample_iteration_throughputs = None, update_iteration_throughputs = None,
       ray = rt \<rparr>"

text \<open>
  Iterating over the attribute (\<^verbatim>\<open>for ray_worker in self.ray_env_sample_workers\<close>):
  \<^verbatim>\<open>None\<close> is not iterable, a list yields its elements, a dictionary its keys.
\<close>

fun py_iter :: "workers_attr \<Rightarrow> error + pyval list" where
  "py_iter WNone = Inl TypeError"
| "py_iter (WList ws) = Inr (map PyActor ws)"
| "py_iter (WDict d) = Inr (map fst d)"

section \<open>Cluster manager: \<^verbatim>\<open>RayExecutor.create_remote_workers\<close>\<close>

text \<open>
  \<^verbatim>\<open>range_(num_actors)\<close> is \<open>0, \<dots>, num_actors - 1\<close>, empty for a count below 1. The
  loop body copies the config, creates the actor from the copy and the shared extra
  arguments, records the label under the handle and appends the handle.
\<close>

definition py_range :: "int \<Rightarrow> nat list" where
  "py_range n = [0..<nat n]"

fun create_remote_workers_loop ::
  "string \<Rightarrow> addr \<Rightarrow> pyval list \<Rightarrow> nat list \<Rightarrow> actor list \<Rightarrow> 'a ray_executor_scheme
     \<Rightarrow> actor list \<times> 'a ray_executor_scheme" where
  "create_remote_workers_loop cls agent_config args [] workers s = (workers, s)"
| "create_remote_workers_loop cls agent_config args (i # rest) workers s =
     (let (config, rt1) = deepcopy agent_config (ray s);
          (worker, rt2) = cls_remote cls config args rt1;
          s' = s\<lparr> worker_ids := dict_set (worker_ids s) (PyActor worker) (''worker_'' @ str_nat i),
                 ray := rt2 \<rparr>
      in create_remote_workers_loop cls agent_config args rest (workers @ [worker]) s')"

definition create_remote_workers ::
  "string \<Rightarrow> int \<Rightarrow> addr \<Rightarrow> pyval list \<Rightarrow> 'a ray_executor_scheme
     \<Rightarrow> actor list \<times> 'a ray_executor_scheme" where
  "create_remote_workers cls num_actors agent_config args s =
     create_remote_workers_loop cls agent_config args (py_range num_actors) [] s"

section \<open>Per-worker queries: \<^verbatim>\<open>get_sample_worker_ids\<close>, \<^verbatim>\<open>result_by_worker\<close>\<close>

definition get_sample_worker_ids :: "'a ray_executor_scheme \<Rightarrow> pyval list" where
  "get_sample_worker_ids s = dict_keys (worker_ids s)"

text \<open>
  \<^verbatim>\<open>result_by_worker\<close> looks the worker up with \<^verbatim>\<open>.keys()\<close> and indexing (or takes the
  first of \<^verbatim>\<open>.values()\<close> when no id is given); \<^verbatim>\<open>None\<close> and lists have neither
  method. It then fetches the worker's statistics and returns the two time series.
\<close>

definition lookup_worker :: "pyval \<Rightarrow> workers_attr \<Rightarrow> error + actor" where
  "lookup_worker worker_id ws =
     (if worker_id \<noteq> PyNone then
        (case ws of
           WDict d \<Rightarrow>
             (case map_of d worker_id of
                None \<Rightarrow> Inl (AssertionError worker_id)
              | Some w \<Rightarrow> Inr w)
         | _ \<Rightarrow> Inl AttributeError)
      else
        (case ws of
           WDict d \<Rightarrow> (case map snd d of [] \<Rightarrow> Inl IndexError | w # _ \<Rightarrow> Inr w)
         | _ \<Rightarrow> Inl AttributeError))"

definition result_by_worker ::
  "pyval \<Rightarrow> 'a ray_executor_scheme \<Rightarrow> error + (rat list \<times> int list) \<times> 'a ray_executor_scheme" where
  "result_by_worker worker_id s =
     (case lookup_worker worker_id (ray_env_sample_workers s) of
        Inl e \<Rightarrow> Inl e
      | Inr ray_worker \<Rightarrow>
          (let (task, rt) = method_remote ray_worker GetWorkloadStatistics (ray s);
               metrics = workload_statistics rt ray_worker
           in Inr ((episode_rewards metrics, episode_timesteps metrics), s\<lparr> ray := rt \<rparr>)))"

section \<open>Synchronous-batch executor: \<^verbatim>\<open>test_worker_init\<close>\<close>

text \<open>
  For each worker in order: read its label from \<^verbatim>\<open>worker_ids\<close> for the log line (a
  missing key raises), submit the constructor probe, fetch its result and assert that
  it is the object \<^verbatim>\<open>True\<close>. The state is returned also when the assertion fails, with
  the calls submitted until then.
\<close>

fun test_worker_init_loop ::
  "pyval list \<Rightarrow> 'a ray_executor_scheme \<Rightarrow> (error + unit) \<times> 'a ray_executor_scheme" where
  "test_worker_init_loop [] s = (Inr (), s)"
| "test_worker_init_loop (ray_worker # rest) s =
     (case map_of (worker_ids s) ray_worker of
        None \<Rightarrow> (Inl KeyError, s)
      | Some label \<Rightarrow>
          (case ray_worker of
             PyActor w \<Rightarrow>
               (let (task, rt) = method_remote w GetConstructorSuccess (ray s);
                    result = constructor_success rt w
                in if result = PyBool True then test_worker_init_loop rest (s\<lparr> ray := rt \<rparr>)
                   else (Inl (AssertionError result), s\<lparr> ray := rt \<rparr>))
           | _ \<Rightarrow> (Inl AttributeError, s)))"

definition test_worker_init ::
  "'a ray_executor_scheme \<Rightarrow> (error + unit) \<times> 'a ray_executor_scheme" where
  "test_worker_init s =
     (case py_iter (ray_env_sample_workers s) of
        Inl e \<Rightarrow> (Inl e, s)
      | Inr ws \<Rightarrow> test_worker_init_loop ws s)"

section \<open>Statistics aggregator: \<^verbatim>\<open>RayExecutor.get_aggregate_worker_results\<close>\<close>

text \<open>
  Rewards, throughputs and clock readings are Python floats. A finite float is a rational
  number, and the minimum and maximum of floats are exact, so \<^verbatim>\<open>np.min\<close> and \<^verbatim>\<open>np.max\<close>
  are computed; both raise \<^verbatim>\<open>ValueError\<close> on an empty list. \<^verbatim>\<open>np.mean\<close> rounds, in an
  order of summation that is numpy's own, so its value is not computed here:
  \<open>NpMean xs\<close> stands for the float that \<^verbatim>\<open>np.mean\<close> returns for the list \<open>xs\<close>.
  Differences of clock readings and throughput quotients are kept as exact rationals
  (Python rounds them); a difference of two floats is zero exactly when they are equal.
\<close>

datatype np_float = NpMean "rat list"

definition np_min :: "rat list \<Rightarrow> error + rat" where
  "np_min xs = (case xs of [] \<Rightarrow> Inl ValueError | x # r \<Rightarrow> Inr (fold min r x))"

definition np_max :: "rat list \<Rightarrow> error + rat" where
  "np_max xs = (case xs of [] \<Rightarrow> Inl ValueError | x # r \<Rightarrow> Inr (fold max r x))"

record aggregate_statistics =
  min_reward :: rat
  max_reward :: rat
  mean_reward :: np_float
  mean_final_reward :: np_float
  episodes_executed :: int
  steps_executed :: int
  mean_worker_op_throughput :: np_float
  min_worker_op_throughput :: rat
  max_worker_op_throughput :: rat
  mean_worker_env_frame_throughput :: np_float

text \<open>
  The loop over the workers: the label is read for the log line (a missing key raises),
  the statistics are fetched, six lists and two counters are extended. The accumulator
  holds, in this order, \<^verbatim>\<open>min_rewards\<close>, \<^verbatim>\<open>max_rewards\<close>, \<^verbatim>\<open>mean_rewards\<close>,
  \<^verbatim>\<open>final_rewards\<close>, \<^verbatim>\<open>worker_op_throughputs\<close>, \<^verbatim>\<open>worker_env_frame_throughputs\<close>,
  \<^verbatim>\<open>episodes_executed\<close> and \<^verbatim>\<open>steps_executed\<close>.
\<close>

type_synonym aggregate_acc =
  "rat list \<times> rat list \<times> rat list \<times> rat list \<times> rat list \<times> rat list \<times> int \<times> int"

fun get_aggregate_loop ::
  "pyval list \<Rightarrow> aggregate_acc \<Rightarrow> 'a ray_executor_scheme
     \<Rightarrow> error + aggregate_acc \<times> 'a ray_executor_scheme" where
  "get_aggregate_loop [] acc s = Inr (acc, s)"
| "get_aggregate_loop (ray_worker # rest)
       (min_rewards, max_rewards, mean_rewards, final_rewards, op_throughputs,
        frame_throughputs, episodes, steps) s =
     (case map_of (worker_ids s) ray_worker of
        None \<Rightarrow> Inl KeyError
      | Some label \<Rightarrow>
          (case ray_worker of
             PyActor w \<Rightarrow>
               (let (task, rt) = method_remote w GetWorkloadStatistics (ray s);
                    metrics = workload_statistics rt w
                in get_aggregate_loop rest
                     (min_rewards @ [min_episode_reward metrics],
                      max_rewards @ [max_episode_reward metrics],
                      mean_rewards @ [mean_episode_reward metrics],
                      final_rewards @ [final_episode_reward metrics],
                      op_throughputs @ [mean_worker_ops_per_second metrics],
                      frame_throughputs @ [mean_worker_env_frames_per_second metrics],
                      episodes + worker_statistics.episodes_executed metrics,
                      steps + worker_steps metrics)
                     (s\<lparr> ray := rt \<rparr>))
           | _ \<Rightarrow> Inl AttributeError))"

definition reduce_statistics :: "aggregate_acc \<Rightarrow> error + aggregate_statistics" where
  "reduce_statistics acc =
     (case acc of
        (min_rewards, max_rewards, mean_rewards, final_rewards, op_throughputs,
         frame_throughputs, episodes, steps) \<Rightarrow>
       (case np_min min_rewards of Inl e \<Rightarrow> Inl e | Inr min_r \<Rightarrow>
       (case np_max max_rewards of Inl e \<Rightarrow> Inl e | Inr max_r \<Rightarrow>
       (case np_min op_throughputs of Inl e \<Rightarrow> Inl e | Inr min_op \<Rightarrow>
       (case np_max op_throughputs of Inl e \<Rightarrow> Inl e | Inr max_op \<Rightarrow>
          Inr \<lparr> min_reward = min_r,
                max_reward = max_r,
                mean_reward = NpMean mean_rewards,
                mean_final_reward = NpMean final_rewards,
                episodes_executed = episodes,
                steps_executed = steps,
                mean_worker_op_throughput = NpMean op_throughputs,
                min_worker_op_throughput = min_op,
                max_worker_op_throughput = max_op,
                mean_worker_env_frame_throughput = NpMean frame_throughputs \<rparr>)))))"

definition get_aggregate_worker_results ::
  "'a ray_executor_scheme \<Rightarrow> error + aggregate_statistics \<times> 'a ray_executor_scheme" where
  "get_aggregate_worker_results s =
     (case py_iter (ray_env_sample_workers s) of
        Inl e \<Rightarrow> Inl e
      | Inr ws \<Rightarrow>
          (case get_aggregate_loop ws ([], [], [], [], [], [], 0, 0) s of
             Inl e \<Rightarrow> Inl e
           | Inr (acc, s') \<Rightarrow>
               (case reduce_statistics acc of
                  Inl e \<Rightarrow> Inl e
                | Inr stats \<Rightarrow> Inr (stats, s'))))"

section \<open>Task pool\<close>

text \<open>
  Modelled from the spec: the task pool (\<^verbatim>\<open>RayTaskPool\<close>, imported from
  \<^verbatim>\<open>rlgraph.execution.ray.ray_util\<close>) is not among the sources; its operations follow
  section 4.2 of the spec. The pool holds the outstanding operations, each with the
  worker it was issued to. An operation of \<^verbatim>\<open>execute_and_get_with_count\<close> is the pair of
  its two result ids (batch, sample count).
\<close>

type_synonym task_pool = "(actor \<times> obj_id \<times> obj_id) list"

text \<open>
  Modelled from the spec: \<^verbatim>\<open>add_task\<close> of the missing \<^verbatim>\<open>RayTaskPool\<close> registers a new
  outstanding operation and fails with \<^verbatim>\<open>DuplicateTaskError\<close> when the worker already
  has one.
\<close>

definition add_task :: "actor \<Rightarrow> obj_id \<times> obj_id \<Rightarrow> task_pool \<Rightarrow> error + task_pool" where
  "add_task w op pool =
     (if w \<in> set (map fst pool) then Inl DuplicateTaskError else Inr (pool @ [(w, op)]))"

text \<open>
  Modelled from the spec: when an operation of the missing \<^verbatim>\<open>RayTaskPool\<close> counts as
  finished. The spec leaves it to the runtime; here it is the arrival of the
  operation's sample count in the object store.
\<close>

definition finished :: "ray_state \<Rightarrow> actor \<times> obj_id \<times> obj_id \<Rightarrow> bool" where
  "finished rt task = (object_store rt (snd (snd task)) \<noteq> None)"

text \<open>
  Modelled from the spec: \<^verbatim>\<open>get_completed\<close> of the missing \<^verbatim>\<open>RayTaskPool\<close> blocks until
  at least one outstanding operation has finished and then yields all finished ones,
  which leave the pool (a worker is not yielded again before a new \<^verbatim>\<open>add_task\<close>). The
  runtime state given to it is the cluster's state when the wait ends; a state in which
  no outstanding operation has finished is one in which the call has not returned
  (\<open>None\<close>). The order within one call is arbitrary in the spec; here it is pool order.
\<close>

definition get_completed ::
  "ray_state \<Rightarrow> task_pool \<Rightarrow> ((actor \<times> obj_id \<times> obj_id) list \<times> task_pool) option" where
  "get_completed rt pool =
     (let completed = filter (finished rt) pool
      in if completed = [] then None
         else Some (completed, filter (\<lambda>t. \<not> finished rt t) pool))"

text \<open>
  \<^verbatim>\<open>ray.get(ids)\<close> returns the values of the objects, and blocks while one is missing.
\<close>

definition ray_get :: "ray_state \<Rightarrow> obj_id list \<Rightarrow> int list option" where
  "ray_get rt ids = those (map (object_store rt) ids)"

section \<open>Synchronous-batch executor: \<^verbatim>\<open>_execute_step\<close>\<close>

text \<open>
  \<^verbatim>\<open>SyncBatchExecutor\<close> adds the task pool \<^verbatim>\<open>env_sample_tasks\<close> to the executor (its other
  fields are not read by the step). The step takes all completed tasks out of the pool,
  fetches their sample counts in one \<^verbatim>\<open>ray.get\<close>, and for the \<open>i\<close>-th completed task adds
  the \<open>i\<close>-th count to \<^verbatim>\<open>env_steps\<close> and adds a new sampling task for the same worker.
  It returns the tuple \<^verbatim>\<open>(env_steps, update_steps, 0, 0)\<close>; a tuple of integers is a
  list here, so that its length is a value.
\<close>

record sync_batch_executor = ray_executor +
  env_sample_tasks :: task_pool

fun execute_step_loop ::
  "(nat \<times> actor \<times> obj_id \<times> obj_id) list \<Rightarrow> int list \<Rightarrow> int \<Rightarrow> 'a sync_batch_executor_scheme
     \<Rightarrow> error + int \<times> 'a sync_batch_executor_scheme" where
  "execute_step_loop [] sample_batch_sizes env_steps s = Inr (env_steps, s)"
| "execute_step_loop ((i, ray_worker, env_sample_obj_id, sample_size) # rest)
       sample_batch_sizes env_steps s =
     (if i < length sample_batch_sizes then
        (let sample_steps = sample_batch_sizes ! i;
             (task, rt) = execute_and_get_with_count_remote ray_worker (ray s)
         in case add_task ray_worker task (env_sample_tasks s) of
              Inl e \<Rightarrow> Inl e
            | Inr pool \<Rightarrow>
                execute_step_loop rest sample_batch_sizes (env_steps + sample_steps)
                  (s\<lparr> env_sample_tasks := pool, ray := rt \<rparr>))
      else Inl IndexError)"

definition execute_step ::
  "'a sync_batch_executor_scheme
     \<Rightarrow> (error + int list \<times> 'a sync_batch_executor_scheme) option" where
  "execute_step s =
     (case get_completed (ray s) (env_sample_tasks s) of
        None \<Rightarrow> None
      | Some (completed_sample_tasks, pool) \<Rightarrow>
          (case ray_get (ray s) (map (\<lambda>task. snd (snd task)) completed_sample_tasks) of
             None \<Rightarrow> None
           | Some sample_batch_sizes \<Rightarrow>
               (case execute_step_loop (enumerate 0 completed_sample_tasks) sample_batch_sizes 0
                       (s\<lparr> env_sample_tasks := pool \<rparr>) of
                  Inl e \<Rightarrow> Some (Inl e)
                | Inr (env_steps, s') \<Rightarrow> Some (Inr ([env_steps, 0, 0, 0], s')))))"

text \<open>
  The tasks that \<^verbatim>\<open>execute_and_get_with_count.remote()\<close> creates for the given workers, one
  after the other, when the next free object id is \<open>n\<close>.
\<close>

fun fresh_tasks :: "obj_id \<Rightarrow> actor list \<Rightarrow> task_pool" where
  "fresh_tasks n [] = []"
| "fresh_tasks n (w # ws) = (w, n, Suc n) # fresh_tasks (Suc (Suc n)) ws"

section \<open>Workload executor: \<^verbatim>\<open>RayExecutor.execute_workload\<close>\<close>

text \<open>
  The step primitive \<^verbatim>\<open>_execute_step\<close> is a method that subclasses override: here a
  function on the executor's state that returns a tuple and the new state, raises, or
  does not return (\<open>None\<close>). The base class raises \<^verbatim>\<open>NotImplementedError\<close>. The loop
  unpacks the result into two names, which raises \<^verbatim>\<open>ValueError\<close> for a tuple of any
  other length.
\<close>

type_synonym 's step = "'s \<Rightarrow> (error + int list \<times> 's) option"

definition execute_step_abstract :: "'s step" where
  "execute_step_abstract s = Some (Inl NotImplementedError)"

definition unpack2 :: "int list \<Rightarrow> error + int \<times> int" where
  "unpack2 t = (case t of [a, b] \<Rightarrow> Inr (a, b) | _ \<Rightarrow> Inl ValueError)"

text \<open>
  The inner loop runs steps until the steps of this iteration reach the report
  interval; the outer loop runs iterations until the steps executed reach
  \<^verbatim>\<open>num_timesteps\<close>. Neither has another bound, so both are partial: \<open>None\<close> is a run
  that does not return. \<^verbatim>\<open>time.monotonic()\<close> is read from \<open>clock\<close>: its \<open>k\<close>-th call
  (from 0) returns \<open>clock k\<close>, and the loop carries the number of readings made. The
  log line of an iteration divides by \<^verbatim>\<open>num_timesteps\<close>, which is positive inside the
  loop; log lines are not part of the model.
\<close>

partial_function (option) report_loop ::
  "'s step \<Rightarrow> int \<Rightarrow> int \<Rightarrow> int \<Rightarrow> 's \<Rightarrow> (error + (int \<times> int) \<times> 's) option" where
  "report_loop step report_interval iteration_step iteration_updates s =
     (if iteration_step < report_interval then
        (case step s of
           None \<Rightarrow> None
         | Some (Inl e) \<Rightarrow> Some (Inl e)
         | Some (Inr (result, s')) \<Rightarrow>
             (case unpack2 result of
                Inl e \<Rightarrow> Some (Inl e)
              | Inr (worker_steps_executed, update_steps) \<Rightarrow>
                  report_loop step report_interval (iteration_step + worker_steps_executed)
                    (iteration_updates + update_steps) s'))
      else Some (Inr ((iteration_step, iteration_updates), s)))"

type_synonym workload_vars = "nat \<times> int \<times> rat list \<times> int list \<times> int list"

partial_function (option) workload_loop ::
  "'s step \<Rightarrow> (nat \<Rightarrow> rat) \<Rightarrow> int \<Rightarrow> int \<Rightarrow> nat \<Rightarrow> int \<Rightarrow> rat list \<Rightarrow> int list \<Rightarrow> int list \<Rightarrow> 's
     \<Rightarrow> (error + workload_vars \<times> 's) option" where
  "workload_loop step clock num_timesteps report_interval reads timesteps
       iteration_times iteration_time_steps iteration_update_steps s =
     (if timesteps < num_timesteps then
        (case report_loop step report_interval 0 0 s of
           None \<Rightarrow> None
         | Some (Inl e) \<Rightarrow> Some (Inl e)
         | Some (Inr ((iteration_step, iteration_updates), s')) \<Rightarrow>
             workload_loop step clock num_timesteps report_interval (Suc (Suc reads))
               (timesteps + iteration_step)
               (iteration_times @ [clock (Suc reads) - clock reads])
               (iteration_time_steps @ [iteration_step])
               (iteration_update_steps @ [iteration_updates]) s')
      else Some (Inr ((reads, timesteps, iteration_times, iteration_time_steps,
                       iteration_update_steps), s)))"

text \<open>
  After the loops, each iteration's step and update counts are divided by its elapsed
  time and appended to the two throughput lists. The counts are Python integers and the
  time a Python float, so a zero time raises \<^verbatim>\<open>ZeroDivisionError\<close>. The three lists have
  the same length.
\<close>

fun throughput_loop ::
  "rat list \<Rightarrow> int list \<Rightarrow> int list \<Rightarrow> rat list \<times> rat list \<Rightarrow> error + rat list \<times> rat list" where
  "throughput_loop [] time_steps update_steps acc = Inr acc"
| "throughput_loop (it_time # its) (n # time_steps) (u # update_steps) (samples, updates) =
     (if it_time = 0 then Inl ZeroDivisionError
      else throughput_loop its time_steps update_steps
             (samples @ [of_int n / it_time], updates @ [of_int u / it_time]))"
| "throughput_loop (it_time # its) time_steps update_steps acc = Inl IndexError"

record workload_result =
  runtime :: rat
  timesteps_executed :: int
  ops_per_second :: rat
  min_iteration_sample_throughput :: rat
  max_iteration_sample_throughput :: rat
  mean_iteration_sample_throughput :: np_float
  min_iteration_update_throughput :: rat
  max_iteration_update_throughput :: rat
  mean_iteration_update_throughput :: np_float
  mean_worker_op_throughput :: np_float
  max_worker_op_throughput :: rat
  min_worker_op_throughput :: rat
  mean_worker_reward :: np_float
  max_worker_reward :: rat
  min_worker_reward :: rat
  final_reward :: np_float

text \<open>
  The part of \<^verbatim>\<open>execute_workload\<close> after the loops. The total time is floored:
  \<^verbatim>\<open>(time.monotonic() - start) or 1e-10\<close>. The throughput lists are the executor's two
  fields, reset at the start of \<^verbatim>\<open>execute_workload\<close>; a step that replaced one of them
  by \<^verbatim>\<open>None\<close> makes the append fail.
\<close>

definition workload_summary ::
  "(nat \<Rightarrow> rat) \<Rightarrow> rat \<Rightarrow> workload_vars \<Rightarrow> 'a ray_executor_scheme
     \<Rightarrow> error + workload_result \<times> 'a ray_executor_scheme" where
  "workload_summary clock start vars s =
     (case vars of
        (reads, timesteps, iteration_times, iteration_time_steps, iteration_update_steps) \<Rightarrow>
       (let elapsed = clock reads - start;
            total_time = (if elapsed = 0 then 1 / 10 ^ 10 else elapsed)
        in case env_sample_iteration_throughputs s of None \<Rightarrow> Inl AttributeError | Some samples0 \<Rightarrow>
          (case update_iteration_throughputs s of None \<Rightarrow> Inl AttributeError | Some updates0 \<Rightarrow>
          (case throughput_loop iteration_times iteration_time_steps iteration_update_steps
                  (samples0, updates0) of
             Inl e \<Rightarrow> Inl e
           | Inr (samples, updates) \<Rightarrow>
          (case get_aggregate_worker_results
                  (s\<lparr> env_sample_iteration_throughputs := Some samples,
                      update_iteration_throughputs := Some updates \<rparr>) of
             Inl e \<Rightarrow> Inl e
           | Inr (worker_stats, s') \<Rightarrow>
          (case np_min samples of Inl e \<Rightarrow> Inl e | Inr min_s \<Rightarrow>
          (case np_max samples of Inl e \<Rightarrow> Inl e | Inr max_s \<Rightarrow>
          (case np_min updates of Inl e \<Rightarrow> Inl e | Inr min_u \<Rightarrow>
          (case np_max updates of Inl e \<Rightarrow> Inl e | Inr max_u \<Rightarrow>
             Inr (\<lparr> runtime = total_time,
                    timesteps_executed = timesteps,
                    ops_per_second = of_int timesteps / total_time,
                    min_iteration_sample_throughput = min_s,
                    max_iteration_sample_throughput = max_s,
                    mean_iteration_sample_throughput = NpMean samples,
                    min_iteration_update_throughput = min_u,
                    max_iteration_update_throughput = max_u,
                    mean_iteration_update_throughput = NpMean updates,
                    mean_worker_op_throughput = aggregate_statistics.mean_worker_op_throughput worker_stats,
                    max_worker_op_throughput = aggregate_statistics.max_worker_op_throughput worker_stats,
                    min_worker_op_throughput = aggregate_statistics.min_worker_op_throughput worker_stats,
                    mean_worker_reward = mean_reward worker_stats,
                    max_worker_reward = max_reward worker_stats,
                    min_worker_reward = min_reward worker_stats,
                    final_reward = mean_final_reward worker_stats \<rparr>, s'))))))))))"

text \<open>
  \<^verbatim>\<open>execute_workload\<close>: reset the throughput lists (\<^verbatim>\<open>init_tasks\<close> does nothing), read the
  two workload parameters (a missing key raises), take the start time, run the loops and
  summarise.
\<close>

definition execute_workload ::
  "'a ray_executor_scheme step \<Rightarrow> (nat \<Rightarrow> rat) \<Rightarrow> (string \<rightharpoonup> int) \<Rightarrow> 'a ray_executor_scheme
     \<Rightarrow> (error + workload_result \<times> 'a ray_executor_scheme) option" where
  "execute_workload step clock workload s =
     (case workload ''num_timesteps'' of
        None \<Rightarrow> Some (Inl KeyError)
      | Some num_timesteps \<Rightarrow>
     (case workload ''report_interval'' of
        None \<Rightarrow> Some (Inl KeyError)
      | Some report_interval \<Rightarrow>
     (case workload_loop step clock num_timesteps report_interval 1 0 [] [] []
             (s\<lparr> env_sample_iteration_throughputs := Some [],
                 update_iteration_throughputs := Some [] \<rparr>) of
        None \<Rightarrow> None
      | Some (Inl e) \<Rightarrow> Some (Inl e)
      | Some (Inr (vars, s')) \<Rightarrow> Some (workload_summary clock (clock 0) vars s'))))"

section \<open>The control loop that runs the synchronous-batch step\<close>



section \<open>A test double for the step primitive\<close>

text \<open>
  A test double for the step primitive: an executor that counts the scheduling rounds,
  and a step that reports a fixed number of environment and update steps per call.
\<close>

record counting_executor = ray_executor +
  rounds :: nat

definition fixed_step :: "int \<Rightarrow> int \<Rightarrow> 'a counting_executor_scheme step" where
  "fixed_step worker_steps_executed update_steps s =
     Some (Inr ([worker_steps_executed, update_steps], s\<lparr> rounds := Suc (rounds s) \<rparr>))"

section \<open>Worker creation in \<^verbatim>\<open>setup_execution\<close>, and a small cluster for concrete runs\<close>

text \<open>
  The part of \<^verbatim>\<open>SyncBatchExecutor.setup_execution\<close> that creates the sample workers:
  the list returned by \<^verbatim>\<open>create_remote_workers\<close> becomes \<^verbatim>\<open>ray_env_sample_workers\<close>.
  The demo cluster has one config object at address 0 and no actors yet; its workers
  answer the constructor probe as the given function says.
\<close>

definition setup_workers :: "int \<Rightarrow> addr \<Rightarrow> pyval list \<Rightarrow> 'a ray_executor_scheme \<Rightarrow> 'a ray_executor_scheme" where
  "setup_workers n agent_config args s =
     (let (workers, s') = create_remote_workers ''RayValueWorker'' n agent_config args s
      in s'\<lparr> ray_env_sample_workers := WList workers \<rparr>)"

definition demo_statistics :: "actor \<Rightarrow> worker_statistics" where
  "demo_statistics w =
     \<lparr> episode_rewards = [of_nat w, of_nat w + 2], episode_timesteps = [10, 20],
       min_episode_reward = of_nat w, max_episode_reward = of_nat w + 2,
       mean_episode_reward = of_nat w + 1, final_episode_reward = of_nat w + 2,
       episodes_executed = 2, worker_steps = 30,
       mean_worker_ops_per_second = 5, mean_worker_env_frames_per_second = 20 \<rparr>"

definition demo_cluster :: "(actor \<Rightarrow> pyval) \<Rightarrow> ray_state" where
  "demo_cluster probe =
     \<lparr> next_addr = 1, heap = (\<lambda>_. PyNone)(0 := PyDict [(''type'', PyStr ''dqn'')]),
       next_actor = 0,
       actors = (\<lambda>_. \<lparr> actor_cls = [], actor_config = 0, actor_args = [] \<rparr>),
       next_obj = 0, submitted = [], object_store = Map.empty,
       constructor_success = probe, workload_statistics = demo_statistics \<rparr>"

definition demo_executor :: "int \<Rightarrow> (actor \<Rightarrow> pyval) \<Rightarrow> ray_executor" where
  "demo_executor n probe = setup_workers n 0 [] (init_executor [] (demo_cluster probe))"

definition demo_counting_executor :: "int \<Rightarrow> counting_executor" where
  "demo_counting_executor n =
     setup_workers n 0 []
       \<lparr> cluster_spec = [], worker_ids = [], ray_env_sample_workers = WNone,
         env_sample_iteration_throughputs = None, update_iteration_throughputs = None,
         ray = demo_cluster (\<lambda>_. PyBool True), rounds = 0 \<rparr>"

text \<open>
  A synchronous-batch executor with two workers after their first tasks were submitted;
  the task of worker 0 has finished with 25 samples, the task of worker 1 has not.
\<close>

definition demo_sync_executor :: sync_batch_executor where
  "demo_sync_executor =
     \<lparr> cluster_spec = [],
       worker_ids = [(PyActor 0, ''worker_0''), (PyActor (Suc 0), ''worker_1'')],
       ray_env_sample_workers = WList [0, Suc 0],
       env_sample_iteration_throughputs = None, update_iteration_throughputs = None,
       ray = (demo_cluster (\<lambda>_. PyBool True))
               \<lparr> next_actor := 2, next_obj := 4,
                 submitted := [(0, ExecuteAndGetWithCount), (Suc 0, ExecuteAndGetWithCount)],
                 object_store := [Suc 0 \<mapsto> 25] \<rparr>,
       env_sample_tasks = [(0, 0, Suc 0), (Suc 0, 2, 3)] \<rparr>"

text \<open>
  Clocks: one that advances by one second between any two readings, and a coarse one
  that advances by one second at every fourth reading.
\<close>

definition steady_clock :: "nat \<Rightarrow> rat" where
  "steady_clock k = of_nat k"


definition coarse_clock :: "nat \<Rightarrow> rat" where
  "coarse_clock k = of_nat (k div 4)"

section \<open>Properties\<close>

lemma map_of_dict_set: "map_of (dict_set d k v) = (map_of d)(k \<mapsto> v)"
  by (induction d k v rule: dict_set.induct) auto

lemma ray_init_warning_iff:
  "no_redis_warning \<in> set (fst (ray_init spec)) \<longleftrightarrow> \<not> dict_in ''redis_host'' spec"
  by (auto simp: ray_init_def Let_def no_redis_warning_def)

lemma ray_init_passes_spec_values:
  "snd (ray_init spec) =
     \<lparr> redis_address = dict_get spec ''redis_address'' PyNone,
       num_cpus = dict_get spec ''num_cpus'' PyNone,
       num_gpus = dict_get spec ''num_gpus'' PyNone \<rparr>"
  by (simp add: ray_init_def Let_def)

text \<open>
  C7. The claim: the local-coordinator warning is logged exactly when the spec has no
  \<^verbatim>\<open>redis_address\<close> key. The code tests the key \<^verbatim>\<open>redis_host\<close> instead, while it
  reads the address from \<^verbatim>\<open>redis_address\<close>: a spec that names a coordinator under
  \<^verbatim>\<open>redis_address\<close> still gets the warning, although that address is the one handed to
  \<^verbatim>\<open>ray.init\<close>.
\<close>

theorem ray_init_warns_with_redis_address:
  "no_redis_warning \<in> set (fst (ray_init [(''redis_address'', PyStr ''10.0.0.1:6379'')]))
   \<and> redis_address (snd (ray_init [(''redis_address'', PyStr ''10.0.0.1:6379'')])) = PyStr ''10.0.0.1:6379''"
  by (simp add: ray_init_def Let_def dict_in_def dict_get_def)

subsection \<open>\<^verbatim>\<open>create_remote_workers\<close>\<close>

lemma loop_workers:
  "fst (create_remote_workers_loop cls cfg args idxs ws s) =
     ws @ [next_actor (ray s)..<next_actor (ray s) + length idxs]"
proof (induction idxs arbitrary: ws s)
  case Nil
  show ?case by simp
next
  case (Cons i rest)
  have "[next_actor (ray s)..<Suc (next_actor (ray s) + length rest)] =
        next_actor (ray s) # [Suc (next_actor (ray s))..<Suc (next_actor (ray s) + length rest)]"
    by (rule upt_conv_Cons) simp
  then show ?case
    by (simp add: Cons.IH deepcopy_def cls_remote_def del: upt_Suc)
qed

lemma loop_next_actor:
  "next_actor (ray (snd (create_remote_workers_loop cls cfg args idxs ws s))) =
     next_actor (ray s) + length idxs"
  by (induction idxs arbitrary: ws s) (simp_all add: deepcopy_def cls_remote_def)

lemma loop_next_addr:
  "next_addr (ray (snd (create_remote_workers_loop cls cfg args idxs ws s))) =
     next_addr (ray s) + length idxs"
  by (induction idxs arbitrary: ws s) (simp_all add: deepcopy_def cls_remote_def)

lemma loop_actors:
  "actors (ray (snd (create_remote_workers_loop cls cfg args idxs ws s))) a =
     (if next_actor (ray s) \<le> a \<and> a < next_actor (ray s) + length idxs
      then \<lparr> actor_cls = cls, actor_config = next_addr (ray s) + (a - next_actor (ray s)),
             actor_args = args \<rparr>
      else actors (ray s) a)"
  by (induction idxs arbitrary: ws s) (auto simp: deepcopy_def cls_remote_def)

lemma loop_heap:
  "cfg < next_addr (ray s) \<Longrightarrow>
   heap (ray (snd (create_remote_workers_loop cls cfg args idxs ws s))) x =
     (if next_addr (ray s) \<le> x \<and> x < next_addr (ray s) + length idxs
      then heap (ray s) cfg else heap (ray s) x)"
  by (induction idxs arbitrary: ws s) (auto simp: deepcopy_def cls_remote_def)

lemma loop_worker_ids:
  "map_of (worker_ids (snd (create_remote_workers_loop cls cfg args idxs ws s))) (PyActor a) =
     (if next_actor (ray s) \<le> a \<and> a < next_actor (ray s) + length idxs
      then Some (''worker_'' @ str_nat (idxs ! (a - next_actor (ray s))))
      else map_of (worker_ids s) (PyActor a))"
proof (induction idxs arbitrary: ws s)
  case Nil
  show ?case by auto
next
  case (Cons i rest)
  show ?case
    by (auto simp: Cons.IH deepcopy_def cls_remote_def map_of_dict_set nth_Cons' Suc_diff_le)
qed

lemma loop_other_fields:
  "submitted (ray (snd (create_remote_workers_loop cls cfg args idxs ws s))) = submitted (ray s)"
  "next_obj (ray (snd (create_remote_workers_loop cls cfg args idxs ws s))) = next_obj (ray s)"
  "object_store (ray (snd (create_remote_workers_loop cls cfg args idxs ws s))) = object_store (ray s)"
  "constructor_success (ray (snd (create_remote_workers_loop cls cfg args idxs ws s))) = constructor_success (ray s)"
  "workload_statistics (ray (snd (create_remote_workers_loop cls cfg args idxs ws s))) = workload_statistics (ray s)"
  by (induction idxs arbitrary: ws s; simp add: deepcopy_def cls_remote_def)+

lemma setup_workers_list:
  "ray_env_sample_workers (setup_workers n cfg args s) =
     WList [next_actor (ray s)..<next_actor (ray s) + nat n]"
  using loop_workers[of "''RayValueWorker''" cfg args "py_range n" "[]" s]
  by (simp add: setup_workers_def create_remote_workers_def py_range_def case_prod_beta)

lemma setup_workers_registered:
  "w \<in> set [next_actor (ray s)..<next_actor (ray s) + nat n] \<Longrightarrow>
   dict_in (PyActor w) (worker_ids (setup_workers n cfg args s))"
  using loop_worker_ids[of "''RayValueWorker''" cfg args "py_range n" "[]" s w]
  by (simp add: setup_workers_def create_remote_workers_def py_range_def dict_in_def case_prod_beta)

lemma setup_workers_ray:
  "submitted (ray (setup_workers n cfg args s)) = submitted (ray s)"
  "next_obj (ray (setup_workers n cfg args s)) = next_obj (ray s)"
  "object_store (ray (setup_workers n cfg args s)) = object_store (ray s)"
  "constructor_success (ray (setup_workers n cfg args s)) = constructor_success (ray s)"
  "workload_statistics (ray (setup_workers n cfg args s)) = workload_statistics (ray s)"
  using loop_other_fields[of "''RayValueWorker''" cfg args "py_range n" "[]" s]
  by (simp_all add: setup_workers_def create_remote_workers_def case_prod_beta)

lemma upt3: "[0..<3] = [0, Suc 0, 2]" by (simp add: upt_rec numeral_3_eq_3)

text \<open>
  C6. For every count \<open>n \<ge> 0\<close>, \<^verbatim>\<open>create_remote_workers\<close> returns exactly \<open>n\<close> distinct
  worker handles; the \<open>i\<close>-th (0-based) is recorded in \<^verbatim>\<open>worker_ids\<close> under the label
  \<^verbatim>\<open>worker_i\<close> and was constructed from the given class and extra arguments and from
  its own copy of the agent config: the copy holds the caller's config value, lives at
  an address that did not exist before the call (so it is not the caller's object nor
  any older one), no two workers have the same copy, and the caller's object is
  unchanged. The caller's reference must be a live object.
\<close>

theorem create_remote_workers_spec:
  assumes "0 \<le> n" and "agent_config < next_addr (ray s)"
  shows "case create_remote_workers cls n agent_config args s of (workers, s') \<Rightarrow>
           int (length workers) = n \<and> distinct workers
         \<and> (\<forall>i < length workers.
               map_of (worker_ids s') (PyActor (workers ! i)) = Some (''worker_'' @ str_nat i)
             \<and> actor_cls (actors (ray s') (workers ! i)) = cls
             \<and> actor_args (actors (ray s') (workers ! i)) = args
             \<and> heap (ray s') (actor_config (actors (ray s') (workers ! i))) = heap (ray s) agent_config
             \<and> next_addr (ray s) \<le> actor_config (actors (ray s') (workers ! i))
             \<and> actor_config (actors (ray s') (workers ! i)) \<noteq> agent_config)
         \<and> distinct (map (\<lambda>w. actor_config (actors (ray s') w)) workers)
         \<and> heap (ray s') agent_config = heap (ray s) agent_config"
proof -
  obtain workers s' where r: "create_remote_workers cls n agent_config args s = (workers, s')"
    by (cases "create_remote_workers cls n agent_config args s")
  let ?na = "next_actor (ray s)"
  have w: "workers = [?na..<?na + nat n]"
    using loop_workers[of cls agent_config args "py_range n" "[]" s] r
    by (simp add: create_remote_workers_def py_range_def)
  have s': "s' = snd (create_remote_workers_loop cls agent_config args (py_range n) [] s)"
    using r by (simp add: create_remote_workers_def)
  have len: "int (length workers) = n" using w assms(1) by simp
  have ids: "map_of (worker_ids s') (PyActor (workers ! i)) = Some (''worker_'' @ str_nat i)"
    if "i < length workers" for i
    using that by (simp add: s' w loop_worker_ids py_range_def)
  have act: "actors (ray s') (workers ! i) =
      \<lparr> actor_cls = cls, actor_config = next_addr (ray s) + i, actor_args = args \<rparr>"
    if "i < length workers" for i
    using that by (simp add: s' w loop_actors py_range_def)
  have hp: "heap (ray s') (next_addr (ray s) + i) = heap (ray s) agent_config"
    if "i < length workers" for i
    using that assms(2) by (simp add: s' w loop_heap py_range_def)
  have hp0: "heap (ray s') agent_config = heap (ray s) agent_config"
    using assms(2) by (simp add: s' loop_heap)
  have cfgs: "map (\<lambda>w. actor_config (actors (ray s') w)) workers =
      [next_addr (ray s)..<next_addr (ray s) + nat n]"
    by (rule nth_equalityI) (simp_all add: w s' loop_actors py_range_def)
  have "distinct workers" by (simp add: w)
  moreover have "distinct (map (\<lambda>w. actor_config (actors (ray s') w)) workers)"
    by (simp only: cfgs distinct_upt)
  ultimately show ?thesis
    using len ids act hp hp0 assms(2) by (simp add: r)
qed

theorem create_remote_workers_spec_witness:
  "(0::int) \<le> 3 \<and> 0 < next_addr (ray (init_executor [] (demo_cluster (\<lambda>_. PyBool True))))
   \<and> length (fst (create_remote_workers ''RayValueWorker'' 3 0 [] (init_executor [] (demo_cluster (\<lambda>_. PyBool True))))) = 3
   \<and> map_of (worker_ids (snd (create_remote_workers ''RayValueWorker'' 3 0 [] (init_executor [] (demo_cluster (\<lambda>_. PyBool True))))))
        (PyActor (fst (create_remote_workers ''RayValueWorker'' 3 0 [] (init_executor [] (demo_cluster (\<lambda>_. PyBool True)))) ! 2))
       = Some ''worker_2''"
proof -
  let ?s = "init_executor [] (demo_cluster (\<lambda>_. PyBool True))"
  have h1: "(0::int) \<le> 3" by simp
  have h2: "0 < next_addr (ray ?s)" by (simp add: init_executor_def demo_cluster_def)
  have l: "''worker_'' @ str_nat 2 = ''worker_2''" by (simp add: str_nat.simps)
  show ?thesis
    using create_remote_workers_spec[OF h1 h2, of "''RayValueWorker''" "[]"] h2 l
    by (auto split: prod.splits)
qed

subsection \<open>\<^verbatim>\<open>test_worker_init\<close>\<close>

lemma probe_loop_pass:
  "\<forall>w\<in>set ws. constructor_success (ray s) w = PyBool True \<Longrightarrow>
   \<forall>w\<in>set ws. dict_in (PyActor w) (worker_ids s) \<Longrightarrow>
   test_worker_init_loop (map PyActor ws) s =
     (Inr (), s\<lparr> ray := (ray s)\<lparr> next_obj := next_obj (ray s) + length ws,
           submitted := submitted (ray s) @ map (\<lambda>w. (w, GetConstructorSuccess)) ws \<rparr> \<rparr>)"
proof (induction ws arbitrary: s)
  case Nil
  show ?case by simp
next
  case (Cons w ws)
  let ?s1 = "s\<lparr> ray := snd (method_remote w GetConstructorSuccess (ray s)) \<rparr>"
  have 1: "\<forall>w\<in>set ws. constructor_success (ray ?s1) w = PyBool True"
    using Cons.prems(1) by (simp add: method_remote_def)
  have 2: "\<forall>w\<in>set ws. dict_in (PyActor w) (worker_ids ?s1)"
    using Cons.prems(2) by simp
  obtain l where l: "map_of (worker_ids s) (PyActor w) = Some l"
    using Cons.prems(2) by (auto simp: dict_in_def)
  have ok: "constructor_success (ray s) w = PyBool True" using Cons.prems(1) by simp
  show ?case
    using Cons.IH[OF 1 2] l ok by (simp add: method_remote_def)
qed

lemma probe_loop_fail:
  "\<forall>w\<in>set pre. constructor_success (ray s) w = PyBool True \<Longrightarrow>
   constructor_success (ray s) bad \<noteq> PyBool True \<Longrightarrow>
   \<forall>w\<in>set (pre @ [bad]). dict_in (PyActor w) (worker_ids s) \<Longrightarrow>
   test_worker_init_loop (map PyActor (pre @ bad # post)) s =
     (Inl (AssertionError (constructor_success (ray s) bad)),
      s\<lparr> ray := (ray s)\<lparr> next_obj := next_obj (ray s) + length (pre @ [bad]),
           submitted := submitted (ray s) @ map (\<lambda>w. (w, GetConstructorSuccess)) (pre @ [bad]) \<rparr> \<rparr>)"
proof (induction pre arbitrary: s)
  case Nil
  obtain l where l: "map_of (worker_ids s) (PyActor bad) = Some l"
    using Nil.prems(3) by (auto simp: dict_in_def)
  show ?case using l Nil.prems(2) by (simp add: method_remote_def)
next
  case (Cons w pre)
  let ?s1 = "s\<lparr> ray := snd (method_remote w GetConstructorSuccess (ray s)) \<rparr>"
  have 1: "\<forall>w\<in>set pre. constructor_success (ray ?s1) w = PyBool True"
    using Cons.prems(1) by (simp add: method_remote_def)
  have 2: "constructor_success (ray ?s1) bad \<noteq> PyBool True"
    using Cons.prems(2) by (simp add: method_remote_def)
  have 3: "\<forall>w\<in>set (pre @ [bad]). dict_in (PyActor w) (worker_ids ?s1)"
    using Cons.prems(3) by simp
  obtain l where l: "map_of (worker_ids s) (PyActor w) = Some l"
    using Cons.prems(3) by (auto simp: dict_in_def)
  have ok: "constructor_success (ray s) w = PyBool True" using Cons.prems(1) by simp
  show ?case
    using Cons.IH[OF 1 2 3] l ok by (simp add: method_remote_def)
qed

text \<open>
  C8. With every worker of the list registered in \<^verbatim>\<open>worker_ids\<close>: if some worker's
  probe result is not \<^verbatim>\<open>True\<close>, \<^verbatim>\<open>test_worker_init\<close> raises the assertion error for the
  first such worker in list order, having probed exactly the workers up to and including
  it; if every probe returns \<^verbatim>\<open>True\<close> it completes normally, having probed every worker.
  In both cases the only calls submitted are constructor probes: no sampling task is
  submitted and no other part of the executor changes.
\<close>

theorem test_worker_init_spec:
  assumes "ray_env_sample_workers s = WList ws"
      and "\<forall>w\<in>set ws. dict_in (PyActor w) (worker_ids s)"
  shows "case test_worker_init s of (r, s') \<Rightarrow>
     (let ok = (\<lambda>w. constructor_success (ray s) w = PyBool True);
          probed = (if list_all ok ws then ws else takeWhile ok ws @ [hd (dropWhile ok ws)])
      in r = (if list_all ok ws then Inr ()
              else Inl (AssertionError (constructor_success (ray s) (hd (dropWhile ok ws)))))
       \<and> s' = s\<lparr> ray := (ray s)\<lparr> next_obj := next_obj (ray s) + length probed,
                  submitted := submitted (ray s) @ map (\<lambda>w. (w, GetConstructorSuccess)) probed \<rparr> \<rparr>
       \<and> filter (\<lambda>c. snd c = ExecuteAndGetWithCount) (submitted (ray s')) =
           filter (\<lambda>c. snd c = ExecuteAndGetWithCount) (submitted (ray s)))"
proof (cases "list_all (\<lambda>w. constructor_success (ray s) w = PyBool True) ws")
  case True
  then have "\<forall>w\<in>set ws. constructor_success (ray s) w = PyBool True"
    by (simp add: list_all_iff)
  from probe_loop_pass[OF this assms(2)] True show ?thesis
    by (simp add: test_worker_init_def assms(1) Let_def)
next
  case False
  let ?ok = "\<lambda>w. constructor_success (ray s) w = PyBool True"
  from False have ne: "dropWhile ?ok ws \<noteq> []"
    by (simp add: list_all_iff)
  then obtain bad post where d: "dropWhile ?ok ws = bad # post"
    by (cases "dropWhile ?ok ws") auto
  have ws: "ws = takeWhile ?ok ws @ bad # post"
    using takeWhile_dropWhile_id[of ?ok ws] d by simp
  have 1: "\<forall>w\<in>set (takeWhile ?ok ws). ?ok w"
    by (auto dest: set_takeWhileD)
  have 2: "\<not> ?ok bad"
    using hd_dropWhile[OF ne] d by simp
  have 3: "\<forall>w\<in>set (takeWhile ?ok ws @ [bad]). dict_in (PyActor w) (worker_ids s)"
  proof
    fix w assume "w \<in> set (takeWhile ?ok ws @ [bad])"
    then have "w \<in> set (takeWhile ?ok ws @ bad # post)" by auto
    then have "w \<in> set ws" using ws by simp
    then show "dict_in (PyActor w) (worker_ids s)" using assms(2) by simp
  qed
  have "test_worker_init s = test_worker_init_loop (map PyActor (takeWhile ?ok ws @ bad # post)) s"
    using ws by (simp add: test_worker_init_def assms(1))
  with probe_loop_fail[OF 1 2 3, of post] False d show ?thesis
    by (simp add: Let_def)
qed


theorem test_worker_init_spec_witness:
  "ray_env_sample_workers (demo_executor 3 (\<lambda>w. PyBool (w \<noteq> Suc 0))) = WList [0, Suc 0, 2]
   \<and> list_all (\<lambda>w. dict_in (PyActor w) (worker_ids (demo_executor 3 (\<lambda>w. PyBool (w \<noteq> Suc 0)))))
        [0, Suc 0, 2]
   \<and> fst (test_worker_init (demo_executor 3 (\<lambda>w. PyBool (w \<noteq> Suc 0)))) = Inl (AssertionError (PyBool False))
   \<and> submitted (ray (snd (test_worker_init (demo_executor 3 (\<lambda>w. PyBool (w \<noteq> Suc 0)))))) =
       [(0, GetConstructorSuccess), (Suc 0, GetConstructorSuccess)]"
proof -
  let ?s = "demo_executor 3 (\<lambda>w. PyBool (w \<noteq> Suc 0))"
  have na: "next_actor (ray (init_executor [] (demo_cluster p))) = 0" for p
    by (simp add: init_executor_def demo_cluster_def)
  have h1: "ray_env_sample_workers ?s = WList [0, Suc 0, 2]"
    by (simp add: demo_executor_def setup_workers_list na upt3)
  have h2: "\<forall>w\<in>set [0, Suc 0, 2]. dict_in (PyActor w) (worker_ids ?s)"
    using setup_workers_registered[of _ "init_executor [] (demo_cluster (\<lambda>w. PyBool (w \<noteq> Suc 0)))" 3 0 "[]"]
    by (simp add: demo_executor_def na upt3)
  have p: "constructor_success (ray ?s) = (\<lambda>w. PyBool (w \<noteq> Suc 0))"
    by (simp add: demo_executor_def setup_workers_ray init_executor_def demo_cluster_def)
  have q: "submitted (ray ?s) = []"
    by (simp add: demo_executor_def setup_workers_ray init_executor_def demo_cluster_def)
  show ?thesis
    using test_worker_init_spec[OF h1 h2] h1 h2
    by (simp add: p q Let_def split: prod.splits)
qed


subsection \<open>\<^verbatim>\<open>get_aggregate_worker_results\<close>\<close>

lemma np_min_Min: "xs \<noteq> [] \<Longrightarrow> np_min xs = Inr (Min (set xs))"
proof (cases xs)
  case (Cons a r)
  then show ?thesis using Min.set_eq_fold[of a r] by (simp add: np_min_def)
qed simp

lemma np_max_Max: "xs \<noteq> [] \<Longrightarrow> np_max xs = Inr (Max (set xs))"
proof (cases xs)
  case (Cons a r)
  then show ?thesis using Max.set_eq_fold[of a r] by (simp add: np_max_def)
qed simp

lemma aggregate_loop_registered:
  "\<forall>w\<in>set ws. dict_in (PyActor w) (worker_ids s) \<Longrightarrow>
   get_aggregate_loop (map PyActor ws) (a1, a2, a3, a4, a5, a6, e, n) s =
     Inr ((a1 @ map (\<lambda>w. min_episode_reward (workload_statistics (ray s) w)) ws,
           a2 @ map (\<lambda>w. max_episode_reward (workload_statistics (ray s) w)) ws,
           a3 @ map (\<lambda>w. mean_episode_reward (workload_statistics (ray s) w)) ws,
           a4 @ map (\<lambda>w. final_episode_reward (workload_statistics (ray s) w)) ws,
           a5 @ map (\<lambda>w. mean_worker_ops_per_second (workload_statistics (ray s) w)) ws,
           a6 @ map (\<lambda>w. mean_worker_env_frames_per_second (workload_statistics (ray s) w)) ws,
           e + sum_list (map (\<lambda>w. worker_statistics.episodes_executed (workload_statistics (ray s) w)) ws),
           n + sum_list (map (\<lambda>w. worker_steps (workload_statistics (ray s) w)) ws)),
          s\<lparr> ray := (ray s)\<lparr> next_obj := next_obj (ray s) + length ws,
               submitted := submitted (ray s) @ map (\<lambda>w. (w, GetWorkloadStatistics)) ws \<rparr> \<rparr>)"
proof (induction ws arbitrary: a1 a2 a3 a4 a5 a6 e n s)
  case Nil
  show ?case by simp
next
  case (Cons w ws)
  let ?s1 = "s\<lparr> ray := snd (method_remote w GetWorkloadStatistics (ray s)) \<rparr>"
  have 1: "\<forall>w\<in>set ws. dict_in (PyActor w) (worker_ids ?s1)"
    using Cons.prems by simp
  obtain l where l: "map_of (worker_ids s) (PyActor w) = Some l"
    using Cons.prems by (auto simp: dict_in_def)
  show ?case
    using Cons.IH[OF 1] l by (simp add: method_remote_def Let_def)
qed

text \<open>
  What the aggregation reduces, for a non-empty list of registered workers: the minimum
  of the workers' minimum episode rewards, the maximum of their maximum episode rewards,
  \<^verbatim>\<open>np.mean\<close> of the list of their mean episode rewards and of the list of their final
  episode rewards (no episode count enters either list), and the sums of their episode
  and step counts. How \<^verbatim>\<open>np.mean\<close> rounds is outside the model, so nothing is said
  here about the distance between its value and the arithmetic mean.
\<close>

lemma aggregate_reduction:
  assumes "ray_env_sample_workers s = WList ws"
      and "ws \<noteq> []"
      and "\<forall>w\<in>set ws. dict_in (PyActor w) (worker_ids s)"
  shows "\<exists>agg s'. get_aggregate_worker_results s = Inr (agg, s')
     \<and> min_reward agg = Min (set (map (\<lambda>w. min_episode_reward (workload_statistics (ray s) w)) ws))
     \<and> max_reward agg = Max (set (map (\<lambda>w. max_episode_reward (workload_statistics (ray s) w)) ws))
     \<and> mean_reward agg =
         NpMean (map (\<lambda>w. mean_episode_reward (workload_statistics (ray s) w)) ws)
     \<and> mean_final_reward agg =
         NpMean (map (\<lambda>w. final_episode_reward (workload_statistics (ray s) w)) ws)
     \<and> episodes_executed agg =
         sum_list (map (\<lambda>w. worker_statistics.episodes_executed (workload_statistics (ray s) w)) ws)
     \<and> steps_executed agg = sum_list (map (\<lambda>w. worker_steps (workload_statistics (ray s) w)) ws)"
  using assms(2)
  by (auto simp: get_aggregate_worker_results_def assms(1) aggregate_loop_registered[OF assms(3)]
      reduce_statistics_def np_min_Min np_max_Max)

subsection \<open>\<^verbatim>\<open>_execute_step\<close> of the synchronous-batch executor\<close>

lemma map_fst_fresh_tasks: "map fst (fresh_tasks n ws) = ws"
  by (induction ws arbitrary: n) simp_all

lemma execute_step_loop_run:
  "k + length ts = length sizes \<Longrightarrow> distinct (map fst ts) \<Longrightarrow>
   set (map fst ts) \<inter> set (map fst (env_sample_tasks s)) = {} \<Longrightarrow>
   execute_step_loop (enumerate k ts) sizes acc s =
     Inr (acc + sum_list (drop k sizes),
          s\<lparr> env_sample_tasks := env_sample_tasks s @ fresh_tasks (next_obj (ray s)) (map fst ts),
             ray := (ray s)\<lparr> next_obj := next_obj (ray s) + 2 * length ts,
                      submitted := submitted (ray s) @
                        map (\<lambda>t. (fst t, ExecuteAndGetWithCount)) ts \<rparr> \<rparr>)"
proof (induction ts arbitrary: k acc s)
  case Nil
  then show ?case by simp
next
  case (Cons t ts)
  obtain w a b where t: "t = (w, a, b)" by (cases t) auto
  let ?s1 = "s\<lparr> env_sample_tasks := env_sample_tasks s @ [(w, next_obj (ray s), Suc (next_obj (ray s)))],
                ray := snd (execute_and_get_with_count_remote w (ray s)) \<rparr>"
  have k: "k < length sizes" using Cons.prems(1) by simp
  have 1: "Suc k + length ts = length sizes" using Cons.prems(1) by simp
  have 2: "distinct (map fst ts)" using Cons.prems(2) by simp
  have 3: "set (map fst ts) \<inter> set (map fst (env_sample_tasks ?s1)) = {}"
    using Cons.prems(2,3) by (auto simp: t)
  have nw: "w \<notin> set (map fst (env_sample_tasks s))"
    using Cons.prems(3) by (auto simp: t)
  have sum: "sizes ! k + sum_list (drop (Suc k) sizes) = sum_list (drop k sizes)"
    using Cons_nth_drop_Suc[OF k, symmetric] by simp
  show ?case
    using Cons.IH[OF 1 2 3, of "acc + sizes ! k"] k nw sum
    by (simp add: t add_task_def execute_and_get_with_count_remote_def)
qed

lemma those_map_Some:
  "\<forall>x\<in>set xs. f x \<noteq> None \<Longrightarrow> \<exists>ys. those (map f xs) = Some ys \<and> map f xs = map Some ys"
  by (induction xs) auto

text \<open>
  C5. If no worker has more than one outstanding task in the pool and at least one task
  has finished (so that \<^verbatim>\<open>get_completed\<close> returns), one call of \<^verbatim>\<open>_execute_step\<close>
  returns \<^verbatim>\<open>(env_steps, 0, 0, 0)\<close> and leaves again at most one outstanding task per
  worker, for the same workers: the unfinished tasks stay, each worker whose task
  finished gets exactly one new sampling task, and these are the only calls submitted.
  \<^verbatim>\<open>env_steps\<close> is the sum of the sample counts of the finished tasks.
\<close>

theorem execute_step_preserves_invariant:
  assumes "distinct (map fst (env_sample_tasks s))"
      and "\<exists>t\<in>set (env_sample_tasks s). finished (ray s) t"
  shows "\<exists>env_steps s' sizes.
       execute_step s = Some (Inr ([env_steps, 0, 0, 0], s'))
     \<and> distinct (map fst (env_sample_tasks s'))
     \<and> set (map fst (env_sample_tasks s')) = set (map fst (env_sample_tasks s))
     \<and> env_sample_tasks s' =
         filter (\<lambda>t. \<not> finished (ray s) t) (env_sample_tasks s) @
         fresh_tasks (next_obj (ray s)) (map fst (filter (finished (ray s)) (env_sample_tasks s)))
     \<and> submitted (ray s') = submitted (ray s) @
         map (\<lambda>t. (fst t, ExecuteAndGetWithCount)) (filter (finished (ray s)) (env_sample_tasks s))
     \<and> map (\<lambda>t. object_store (ray s) (snd (snd t))) (filter (finished (ray s)) (env_sample_tasks s))
         = map Some sizes
     \<and> env_steps = sum_list sizes"
proof -
  let ?pool = "env_sample_tasks s"
  let ?done = "filter (finished (ray s)) ?pool"
  let ?rest = "filter (\<lambda>t. \<not> finished (ray s) t) ?pool"
  have ne: "?done \<noteq> []" using assms(2) by (auto simp: filter_empty_conv)
  have gc: "get_completed (ray s) ?pool = Some (?done, ?rest)"
    using ne by (simp add: get_completed_def Let_def)
  have "\<forall>t\<in>set ?done. object_store (ray s) (snd (snd t)) \<noteq> None"
    by (simp add: finished_def)
  from those_map_Some[OF this] obtain sizes where
    sz: "those (map (\<lambda>t. object_store (ray s) (snd (snd t))) ?done) = Some sizes"
    and sz2: "map (\<lambda>t. object_store (ray s) (snd (snd t))) ?done = map Some sizes"
    by blast
  have rg: "ray_get (ray s) (map (\<lambda>task. snd (snd task)) ?done) = Some sizes"
    using sz by (simp add: ray_get_def comp_def)
  have len: "0 + length ?done = length sizes"
    using arg_cong[OF sz2, of length] by simp
  have d1: "distinct (map fst ?done)" using assms(1) by (rule distinct_map_filter)
  have d2: "distinct (map fst ?rest)" using assms(1) by (rule distinct_map_filter)
  have disj: "set (map fst ?done) \<inter> set (map fst ?rest) = {}"
  proof (rule ccontr)
    assume "set (map fst ?done) \<inter> set (map fst ?rest) \<noteq> {}"
    then obtain x where "x \<in> fst ` set ?done" and "x \<in> fst ` set ?rest"
      by (auto simp only: set_map)
    then obtain t u where "t \<in> set ?done" and "u \<in> set ?rest" and e: "fst t = fst u"
      by blast
    then have t: "t \<in> set ?pool" "finished (ray s) t"
      and u: "u \<in> set ?pool" "\<not> finished (ray s) u"
      by simp_all
    from assms(1) t(1) u(1) e have "t = u"
      by (meson distinct_map inj_onD)
    with t(2) u(2) show False by simp
  qed
  let ?s0 = "s\<lparr> env_sample_tasks := ?rest \<rparr>"
  have disj0: "set (map fst ?done) \<inter> set (map fst (env_sample_tasks ?s0)) = {}"
    using disj by simp
  note run = execute_step_loop_run[OF len d1 disj0, of 0]
  define s' where "s' = ?s0\<lparr> env_sample_tasks := env_sample_tasks ?s0 @
          fresh_tasks (next_obj (ray ?s0)) (map fst ?done),
        ray := (ray ?s0)\<lparr> next_obj := next_obj (ray ?s0) + 2 * length ?done,
          submitted := submitted (ray ?s0) @ map (\<lambda>t. (fst t, ExecuteAndGetWithCount)) ?done \<rparr> \<rparr>"
  have es: "execute_step s = Some (Inr ([sum_list sizes, 0, 0, 0], s'))"
    by (simp add: execute_step_def gc rg run s'_def)
  have pool': "env_sample_tasks s' = ?rest @ fresh_tasks (next_obj (ray s)) (map fst ?done)"
    by (simp add: s'_def)
  have sub': "submitted (ray s') =
      submitted (ray s) @ map (\<lambda>t. (fst t, ExecuteAndGetWithCount)) ?done"
    by (simp add: s'_def)
  have fst': "map fst (env_sample_tasks s') = map fst ?rest @ map fst ?done"
    by (simp add: pool' map_fst_fresh_tasks)
  have dist': "distinct (map fst (env_sample_tasks s'))"
    unfolding fst' using d1 d2 disj by (simp only: distinct_append) blast
  have "set (map fst ?rest) \<union> set (map fst ?done) = set (map fst ?pool)"
    by auto
  then have set': "set (map fst (env_sample_tasks s')) = set (map fst ?pool)"
    unfolding fst' by (simp only: set_append)
  from es dist' set' pool' sub' sz2 show ?thesis
    by blast
qed


theorem execute_step_preserves_invariant_witness:
  "distinct (map fst (env_sample_tasks demo_sync_executor))
   \<and> (\<exists>t\<in>set (env_sample_tasks demo_sync_executor). finished (ray demo_sync_executor) t)
   \<and> (\<exists>s'. execute_step demo_sync_executor = Some (Inr ([25, 0, 0, 0], s'))
         \<and> env_sample_tasks s' = [(Suc 0, 2, 3), (0, 4, 5)]
         \<and> distinct (map fst (env_sample_tasks s')))"
proof -
  have h1: "distinct (map fst (env_sample_tasks demo_sync_executor))"
    by (simp add: demo_sync_executor_def)
  have h2: "\<exists>t\<in>set (env_sample_tasks demo_sync_executor). finished (ray demo_sync_executor) t"
    by (simp add: demo_sync_executor_def finished_def)
  show ?thesis
    using execute_step_preserves_invariant[OF h1 h2] h1 h2
    by (auto simp: demo_sync_executor_def finished_def demo_cluster_def)
qed

subsection \<open>\<^verbatim>\<open>execute_workload\<close>\<close>

lemma unpack2_pair: "unpack2 [w, u] = Inr (w, u)"
  by (simp add: unpack2_def)

lemma report_loop_exit:
  "\<not> a < ri \<Longrightarrow> report_loop step ri a b s = Some (Inr ((a, b), s))"
  by (subst report_loop.simps) simp

lemma report_loop_step:
  "a < ri \<Longrightarrow> step s = Some (Inr ([w, u], s')) \<Longrightarrow>
   report_loop step ri a b s = report_loop step ri (a + w) (b + u) s'"
  by (subst report_loop.simps) (simp add: unpack2_pair)

lemma report_loop_terminates:
  assumes pos: "\<forall>s. \<exists>w u s'. step s = Some (Inr ([w, u], s')) \<and> 0 < w"
  shows "\<exists>a' b' s'. report_loop step ri a b s = Some (Inr ((a', b'), s')) \<and> ri \<le> a' \<and> a \<le> a'"
proof (induction "nat (ri - a)" arbitrary: a b s rule: less_induct)
  case less
  show ?case
  proof (cases "a < ri")
    case False
    then show ?thesis by (simp add: report_loop_exit)
  next
    case True
    from pos obtain w u s' where st: "step s = Some (Inr ([w, u], s'))" and w: "0 < w"
      by blast
    have "nat (ri - (a + w)) < nat (ri - a)" using True w by simp
    from less[OF this, of "b + u" s'] obtain a' b' s'' where
      "report_loop step ri (a + w) (b + u) s' = Some (Inr ((a', b'), s''))" "ri \<le> a'" "a + w \<le> a'"
      by blast
    then show ?thesis using w by (simp add: report_loop_step[of a ri step s w u s' b, OF True st])
  qed
qed

lemma report_loop_Some_not_stuck:
  assumes "report_loop step ri a b s = Some y"
  shows "(\<forall>s. \<exists>u s'. step s = Some (Inr ([0, u], s'))) \<longrightarrow> \<not> a < ri"
proof (rule report_loop.raw_induct[where
      P = "\<lambda>step ri a b s y. (\<forall>s. \<exists>u s'. step s = Some (Inr ([0, u], s'))) \<longrightarrow> \<not> a < ri",
      OF _ assms], goal_cases)
  case (1 rl step ri a b s y)
  show ?case
  proof (intro impI notI)
    assume z: "\<forall>s. \<exists>u s'. step s = Some (Inr ([0, u], s'))" and lt: "a < ri"
    from z obtain u s' where st: "step s = Some (Inr ([0, u], s'))" by blast
    from 1(2) lt st have "rl step ri a (b + u) s' = Some y"
      by (simp add: unpack2_pair)
    from 1(1)[OF this] z lt show False by simp
  qed
qed

lemma report_loop_stuck:
  "\<forall>s. \<exists>u s'. step s = Some (Inr ([0, u], s')) \<Longrightarrow> a < ri \<Longrightarrow> report_loop step ri a b s = None"
  using report_loop_Some_not_stuck[of step ri a b s] by (cases "report_loop step ri a b s") auto

lemma workload_loop_exit:
  "\<not> t < N \<Longrightarrow> workload_loop step clock N ri r t its itss ius s =
     Some (Inr ((r, t, its, itss, ius), s))"
  by (subst workload_loop.simps) simp

lemma workload_loop_iterate:
  "t < N \<Longrightarrow> report_loop step ri 0 0 s = Some (Inr ((i, u), s')) \<Longrightarrow>
   workload_loop step clock N ri r t its itss ius s =
     workload_loop step clock N ri (Suc (Suc r)) (t + i) (its @ [clock (Suc r) - clock r])
       (itss @ [i]) (ius @ [u]) s'"
  by (subst workload_loop.simps) simp

lemma workload_loop_error:
  "t < N \<Longrightarrow> report_loop step ri 0 0 s = Some (Inl e) \<Longrightarrow>
   workload_loop step clock N ri r t its itss ius s = Some (Inl e)"
  by (subst workload_loop.simps) simp

lemma workload_loop_blocked:
  "t < N \<Longrightarrow> report_loop step ri 0 0 s = None \<Longrightarrow>
   workload_loop step clock N ri r t its itss ius s = None"
  by (subst workload_loop.simps) simp

lemma workload_loop_terminates:
  assumes pos: "\<forall>s. \<exists>w u s'. step s = Some (Inr ([w, u], s')) \<and> 0 < w"
      and ri: "1 \<le> ri"
  shows "\<exists>v s'. workload_loop step clock N ri r t its itss ius s = Some (Inr (v, s'))"
proof (induction "nat (N - t)" arbitrary: r t its itss ius s rule: less_induct)
  case less
  show ?case
  proof (cases "t < N")
    case False
    then show ?thesis by (simp add: workload_loop_exit)
  next
    case True
    from report_loop_terminates[OF pos, of ri 0 0 s] obtain i u s' where
      rl: "report_loop step ri 0 0 s = Some (Inr ((i, u), s'))" and i: "ri \<le> i"
      by blast
    have "nat (N - (t + i)) < nat (N - t)" using True i ri by simp
    from less[OF this] show ?thesis
      by (simp add: workload_loop_iterate[of t N step ri s i u s', OF True rl])
  qed
qed



lemma report_loop_fixed:
  assumes "0 < ri" "ri \<le> w"
  shows "report_loop (fixed_step w u) ri 0 0 s = Some (Inr ((w, u), s\<lparr> rounds := Suc (rounds s) \<rparr>))"
proof -
  have "report_loop (fixed_step w u) ri 0 0 s =
        report_loop (fixed_step w u) ri (0 + w) (0 + u) (s\<lparr> rounds := Suc (rounds s) \<rparr>)"
    by (rule report_loop_step) (simp_all add: assms fixed_step_def)
  also have "\<dots> = Some (Inr ((w, u), s\<lparr> rounds := Suc (rounds s) \<rparr>))"
    using assms by (simp add: report_loop_exit)
  finally show ?thesis .
qed

lemma workload_loop_fixed:
  assumes "0 < ri" "ri \<le> w"
  shows "N \<le> t + w * int k \<Longrightarrow> (0 < k \<longrightarrow> t + w * (int k - 1) < N) \<Longrightarrow>
     workload_loop (fixed_step w u) clock N ri r t its itss ius s =
       Some (Inr ((r + 2 * k, t + w * int k,
                   its @ map (\<lambda>j. clock (Suc (r + 2 * j)) - clock (r + 2 * j)) [0..<k],
                   itss @ replicate k w, ius @ replicate k u),
                  s\<lparr> rounds := rounds s + k \<rparr>))"
proof (induction k arbitrary: r t its itss ius s)
  case 0
  then show ?case by (simp add: workload_loop_exit)
next
  case (Suc k)
  have w: "0 < w" using assms by simp
  have "0 \<le> w * int k" using w by simp
  with Suc.prems(2) have lt: "t < N" by simp
  have 1: "N \<le> (t + w) + w * int k" using Suc.prems(1) by (simp add: algebra_simps)
  have 2: "0 < k \<longrightarrow> (t + w) + w * (int k - 1) < N"
    using Suc.prems(2) by (simp add: algebra_simps)
  have m: "map (\<lambda>j. clock (Suc (r + 2 * j)) - clock (r + 2 * j)) [0..<Suc k] =
           (clock (Suc r) - clock r) #
           map (\<lambda>j. clock (Suc (Suc (Suc r) + 2 * j)) - clock (Suc (Suc r) + 2 * j)) [0..<k]"
    by (simp add: map_upt_Suc del: upt_Suc)
  show ?case
    unfolding workload_loop_iterate[of t N "fixed_step w u" ri s w u _ clock r its itss ius,
        OF lt report_loop_fixed[OF assms]] Suc.IH[OF 1 2] m
    by (simp add: algebra_simps replicate_append_same del: upt_Suc)
qed


lemma throughput_loop_zero:
  "length ns = length ts \<Longrightarrow> length us = length ts \<Longrightarrow> 0 \<in> set ts \<Longrightarrow>
   throughput_loop ts ns us (sa, ua) = Inl ZeroDivisionError"
proof (induction ts arbitrary: ns us sa ua)
  case Nil
  then show ?case by simp
next
  case (Cons t ts)
  then show ?case by (cases ns; cases us) auto
qed




lemma workload_summary_zero_time:
  assumes f1: "env_sample_iteration_throughputs s = Some samples0"
      and f2: "update_iteration_throughputs s = Some updates0"
      and its: "length itss = length its" "length ius = length its" "0 \<in> set its"
  shows "workload_summary clock start (r, t, its, itss, ius) s = Inl ZeroDivisionError"
  by (simp add: workload_summary_def f1 f2 throughput_loop_zero[OF its] Let_def)

lemma execute_workload_fixed:
  assumes "0 < ri" "ri \<le> w" "N \<le> w * int k" "0 < k \<longrightarrow> w * (int k - 1) < N"
  shows "execute_workload (fixed_step w u) clock [''num_timesteps'' \<mapsto> N, ''report_interval'' \<mapsto> ri] s =
     Some (workload_summary clock (clock 0)
            (1 + 2 * k, w * int k,
             map (\<lambda>j. clock (Suc (1 + 2 * j)) - clock (1 + 2 * j)) [0..<k],
             replicate k w, replicate k u)
            (s\<lparr> env_sample_iteration_throughputs := Some [],
                update_iteration_throughputs := Some [],
                rounds := rounds s + k \<rparr>))"
  using workload_loop_fixed[OF assms(1,2), of N 0 k u clock 1 "[]" "[]" "[]"
      "s\<lparr> env_sample_iteration_throughputs := Some [], update_iteration_throughputs := Some [] \<rparr>"]
    assms(3,4)
  by (simp add: execute_workload_def)













lemma execute_workload_terminates:
  assumes pos: "\<forall>s. \<exists>w u s'. step s = Some (Inr ([w, u], s')) \<and> 0 < w"
      and ri: "workload ''report_interval'' = Some ri" "1 \<le> ri"
  shows "\<exists>res. execute_workload step clock workload s = Some res"
proof (cases "workload ''num_timesteps''")
  case None
  then show ?thesis by (simp add: execute_workload_def)
next
  case (Some N)
  from workload_loop_terminates[where step = step, OF pos ri(2), of clock N 1 0 "[]" "[]" "[]"
      "s\<lparr> env_sample_iteration_throughputs := Some [], update_iteration_throughputs := Some [] \<rparr>"]
  obtain v s' where "workload_loop step clock N ri 1 0 [] [] []
      (s\<lparr> env_sample_iteration_throughputs := Some [], update_iteration_throughputs := Some [] \<rparr>)
      = Some (Inr (v, s'))"
    by blast
  then show ?thesis by (simp add: execute_workload_def Some ri(1))
qed

lemma execute_workload_stuck:
  assumes z: "\<forall>s. \<exists>u s'. step s = Some (Inr ([0, u], s'))"
      and wl: "workload ''num_timesteps'' = Some N" "1 \<le> N"
              "workload ''report_interval'' = Some ri" "1 \<le> ri"
  shows "execute_workload step clock workload s = None"
proof -
  have "report_loop step ri 0 0 s0 = None" for s0
    using report_loop_stuck[where step = step, OF z, of 0 ri 0 s0] wl(4) by simp
  then have "workload_loop step clock N ri 1 0 [] [] [] s0 = None" for s0
    using workload_loop_blocked[of 0 N step ri s0 clock 1 "[]" "[]" "[]"] wl(2) by simp
  then show ?thesis by (simp add: execute_workload_def wl(1,3))
qed

text \<open>
  C10. With \<^verbatim>\<open>num_timesteps\<close> and \<^verbatim>\<open>report_interval\<close> at least 1: if every call of the
  step primitive returns a strictly positive number of environment steps,
  \<^verbatim>\<open>execute_workload\<close> terminates (it returns or raises); if every call returns 0
  environment steps, the inner reporting loop never exits, and so \<^verbatim>\<open>execute_workload\<close>
  never returns.
\<close>

theorem execute_workload_termination:
  assumes "workload ''num_timesteps'' = Some N" and "1 \<le> N"
      and "workload ''report_interval'' = Some ri" and "1 \<le> ri"
  shows "((\<forall>s. \<exists>w u s'. step s = Some (Inr ([w, u], s')) \<and> 0 < w) \<longrightarrow>
            (\<exists>res. execute_workload step clock workload s = Some res))
       \<and> ((\<forall>s. \<exists>u s'. stuck s = Some (Inr ([0, u], s'))) \<longrightarrow>
            report_loop stuck ri 0 0 s = None
          \<and> execute_workload stuck clock workload s = None)"
proof (intro conjI impI)
  assume "\<forall>s. \<exists>w u s'. step s = Some (Inr ([w, u], s')) \<and> 0 < w"
  from execute_workload_terminates[where step = step and workload = workload, OF this assms(3,4)]
  show "\<exists>res. execute_workload step clock workload s = Some res" .
next
  assume z: "\<forall>s. \<exists>u s'. stuck s = Some (Inr ([0, u], s'))"
  show "report_loop stuck ri 0 0 s = None"
    using report_loop_stuck[where step = stuck, OF z, of 0 ri 0 s] assms(4) by simp
  show "execute_workload stuck clock workload s = None"
    by (rule execute_workload_stuck[where step = stuck and workload = workload, OF z assms])
qed

theorem execute_workload_termination_witness:
  "[''num_timesteps'' \<mapsto> 1000 :: int, ''report_interval'' \<mapsto> 100] ''num_timesteps'' = Some 1000
   \<and> (1::int) \<le> 1000
   \<and> [''num_timesteps'' \<mapsto> 1000 :: int, ''report_interval'' \<mapsto> 100] ''report_interval'' = Some 100
   \<and> (1::int) \<le> 100
   \<and> (\<forall>s :: counting_executor. \<exists>w u s'. fixed_step 100 0 s = Some (Inr ([w, u], s')) \<and> 0 < w)
   \<and> (\<exists>res. execute_workload (fixed_step 100 0) steady_clock
               [''num_timesteps'' \<mapsto> 1000, ''report_interval'' \<mapsto> 100]
               (demo_counting_executor 4) = Some res)
   \<and> (\<forall>s :: counting_executor. \<exists>u s'. fixed_step 0 0 s = Some (Inr ([0, u], s')))
   \<and> report_loop (fixed_step 0 0) 100 0 0 (demo_counting_executor 4) = None
   \<and> execute_workload (fixed_step 0 0) steady_clock
        [''num_timesteps'' \<mapsto> 1000, ''report_interval'' \<mapsto> 100]
        (demo_counting_executor 4) = None"
proof -
  let ?wl = "[''num_timesteps'' \<mapsto> 1000 :: int, ''report_interval'' \<mapsto> 100]"
  have h1: "?wl ''num_timesteps'' = Some 1000" by simp
  have h2: "(1::int) \<le> 1000" by simp
  have h3: "?wl ''report_interval'' = Some 100" by simp
  have h4: "(1::int) \<le> 100" by simp
  have p: "\<forall>s :: counting_executor. \<exists>w u s'. fixed_step 100 0 s = Some (Inr ([w, u], s')) \<and> 0 < w"
    by (simp add: fixed_step_def)
  have z: "\<forall>s :: counting_executor. \<exists>u s'. fixed_step 0 0 s = Some (Inr ([0, u], s'))"
    by (simp add: fixed_step_def)
  from execute_workload_termination[OF h1 h2 h3 h4, of "fixed_step 100 0" steady_clock
      "demo_counting_executor 4" "fixed_step 0 0"] p z h1 h2 h3 h4
  show ?thesis by blast
qed


subsection \<open>The synchronous-batch step under its control loop\<close>









subsection \<open>Zero iteration time\<close>

text \<open>
  C3. The claim: an iteration whose measured time is zero is floored to a positive
  epsilon, so the throughput computation never divides by zero. Only the total run time
  is floored. On the coarse clock the first iteration starts and ends on the same
  reading, and \<^verbatim>\<open>execute_workload\<close> raises \<^verbatim>\<open>ZeroDivisionError\<close> when it divides that
  iteration's steps by its time.
\<close>

theorem execute_workload_zero_iteration_time:
  "coarse_clock 2 - coarse_clock 1 = 0
   \<and> execute_workload (fixed_step 100 0) coarse_clock
         [''num_timesteps'' \<mapsto> 1000, ''report_interval'' \<mapsto> 100] (demo_counting_executor 4)
       = Some (Inl ZeroDivisionError)"
proof
  show z: "coarse_clock 2 - coarse_clock 1 = 0"
    by (simp add: coarse_clock_def)
  let ?its = "map (\<lambda>j. coarse_clock (Suc (1 + 2 * j)) - coarse_clock (1 + 2 * j)) [0..<10]"
  have "coarse_clock (Suc (1 + 2 * 0)) - coarse_clock (1 + 2 * 0) \<in> set ?its"
    by (rule imageI[of 0 "set [0..<10]", unfolded set_map[symmetric]]) simp
  then have "0 \<in> set ?its"
    using z by (simp add: numeral_2_eq_2 del: upt_Suc set_map)
  then have "workload_summary coarse_clock (coarse_clock 0)
       (1 + 2 * 10, 100 * int 10, ?its, replicate 10 100, replicate 10 0)
       ((demo_counting_executor 4)\<lparr> env_sample_iteration_throughputs := Some [],
           update_iteration_throughputs := Some [], rounds := rounds (demo_counting_executor 4) + 10 \<rparr>)
     = Inl ZeroDivisionError"
    by (intro workload_summary_zero_time) (simp_all del: upt_Suc set_map)
  then show "execute_workload (fixed_step 100 0) coarse_clock
         [''num_timesteps'' \<mapsto> 1000, ''report_interval'' \<mapsto> 100] (demo_counting_executor 4)
       = Some (Inl ZeroDivisionError)"
    using execute_workload_fixed[of 100 100 1000 10 0 coarse_clock "demo_counting_executor 4"]
    by simp
qed

subsection \<open>\<^verbatim>\<open>get_sample_worker_ids\<close> and \<^verbatim>\<open>result_by_worker\<close>\<close>

lemma upt2: "[0..<2] = [0, Suc 0]"
  by (simp add: upt_rec)

text \<open>
  C9. The claim: \<^verbatim>\<open>get_sample_worker_ids\<close> returns the labels \<^verbatim>\<open>worker_0\<close>, \<^verbatim>\<open>worker_1\<close>,
  ... as strings, and each is accepted by \<^verbatim>\<open>result_by_worker\<close>. \<^verbatim>\<open>worker_ids\<close> maps
  handles to labels, and the function returns its keys: after two workers were created
  it returns the two actor handles, not the strings. \<^verbatim>\<open>result_by_worker\<close> calls
  \<^verbatim>\<open>.keys()\<close> on \<^verbatim>\<open>ray_env_sample_workers\<close>, which is the list that
  \<^verbatim>\<open>create_remote_workers\<close> returned, so it raises \<^verbatim>\<open>AttributeError\<close> for a handle and
  for a label alike.
\<close>

theorem get_sample_worker_ids_returns_handles:
  "get_sample_worker_ids (demo_executor 2 (\<lambda>_. PyBool True)) = [PyActor 0, PyActor (Suc 0)]
   \<and> map_of (worker_ids (demo_executor 2 (\<lambda>_. PyBool True))) (PyActor 0) = Some ''worker_0''
   \<and> result_by_worker (PyActor 0) (demo_executor 2 (\<lambda>_. PyBool True)) = Inl AttributeError
   \<and> result_by_worker (PyStr ''worker_0'') (demo_executor 2 (\<lambda>_. PyBool True)) = Inl AttributeError"
  by (simp add: get_sample_worker_ids_def dict_keys_def demo_executor_def setup_workers_def
      create_remote_workers_def py_range_def upt2 init_executor_def demo_cluster_def deepcopy_def
      cls_remote_def result_by_worker_def lookup_worker_def str_nat.simps)

end
